theory Spec2Isabelle
  imports Complex_Main
begin

section \<open>Python values, errors and the HTTP boundary\<close>

text \<open>
  The client \<^verbatim>\<open>GDACSAPIReader\<close> of \<^verbatim>\<open>gdacs/api.py\<close> is embedded as pure functions.
  Strings are character lists, an argument that may be \<^verbatim>\<open>None\<close> is an \<open>option\<close>,
  Python's unbounded integers are \<open>int\<close>. Every exception the code can raise is a value
  of the type \<open>error\<close>; the constructor is the exception class and its argument the message.
\<close>

datatype error =
    GDACSAPIError string
  | ValueError string
  | TypeError
  | KeyError
  | JSONDecodeError
  | ValidationError
  | RequestException

text \<open>The class of an exception: what an \<^verbatim>\<open>except\<close> clause of a caller can branch on.\<close>

datatype error_class =
  GDACSAPIError_class | ValueError_class | TypeError_class | KeyError_class
  | JSONDecodeError_class | ValidationError_class | RequestException_class

fun class_of :: "error \<Rightarrow> error_class" where
  "class_of (GDACSAPIError m) = GDACSAPIError_class"
| "class_of (ValueError m) = ValueError_class"
| "class_of TypeError = TypeError_class"
| "class_of KeyError = KeyError_class"
| "class_of JSONDecodeError = JSONDecodeError_class"
| "class_of ValidationError = ValidationError_class"
| "class_of RequestException = RequestException_class"

text \<open>
  A decoded JSON document, as \<^verbatim>\<open>res.json()\<close> returns it. An object is an association list;
  \<open>map_of\<close> looks a key up. A float is kept as the rational number it denotes.
\<close>

datatype json =
    JNull
  | JBool bool
  | JInt int
  | JFloat rat
  | JStr string
  | JArr "json list"
  | JObj "(string \<times> json) list"

text \<open>\<^verbatim>\<open>v[key]\<close> with a string key: only a dict accepts it, and a missing key raises.\<close>

fun subscript :: "json \<Rightarrow> string \<Rightarrow> error + json" where
  "subscript (JObj kvs) k = (case map_of kvs k of None \<Rightarrow> Inl KeyError | Some v \<Rightarrow> Inr v)"
| "subscript v k = Inl TypeError"

text \<open>
  \<^verbatim>\<open>for event in v\<close>: a list yields its items, a dict its keys, a string its characters;
  anything else is not iterable.
\<close>

fun py_iter :: "json \<Rightarrow> error + json list" where
  "py_iter (JArr xs) = Inr xs"
| "py_iter (JObj kvs) = Inr (map (\<lambda>kv. JStr (fst kv)) kvs)"
| "py_iter (JStr s) = Inr (map (\<lambda>c. JStr [c]) s)"
| "py_iter v = Inl TypeError"

text \<open>The value of a keyword argument of \<^verbatim>\<open>requests.get\<close>'s \<^verbatim>\<open>params\<close> dict.\<close>

datatype pyval = VNone | VStr string | VInt int

fun of_str :: "string option \<Rightarrow> pyval" where
  "of_str None = VNone"
| "of_str (Some s) = VStr s"

fun of_int_opt :: "int option \<Rightarrow> pyval" where
  "of_int_opt None = VNone"
| "of_int_opt (Some i) = VInt i"

text \<open>\<^verbatim>\<open>str(x)\<close> inside an f-string, for a string that may be \<^verbatim>\<open>None\<close>.\<close>

fun py_str :: "string option \<Rightarrow> string" where
  "py_str None = ''None''"
| "py_str (Some s) = s"

text \<open>
  One outbound GET: the URL and the \<^verbatim>\<open>params\<close> dict handed to \<^verbatim>\<open>requests.get\<close>, in
  insertion order. The response carries the status code and the decoded body, \<open>None\<close>
  when the body is not JSON (then \<^verbatim>\<open>res.json()\<close> raises).
\<close>

record request =
  url :: string
  params :: "(string \<times> pyval) list"

record response =
  status_code :: int
  body :: "json option"

text \<open>
  The network is a parameter: a function from the request to what \<^verbatim>\<open>requests.get\<close> does
  with it, \<open>Inl\<close> when the transport itself raises. Every operation returns its result
  together with the list of the requests it issued.
\<close>

type_synonym http = "request \<Rightarrow> error + response"

type_synonym 'a outcome = "(error + 'a) \<times> request list"

definition response_json :: "response \<Rightarrow> error + json" where
  "response_json res = (case body res of None \<Rightarrow> Inl JSONDecodeError | Some j \<Rightarrow> Inr j)"

text \<open>
  Modelled from the spec: the class \<^verbatim>\<open>GeoJSON\<close> of \<^verbatim>\<open>gdacs.schemas\<close>, which is not among
  the sources. The spec calls it a feature collection, an ordered sequence of opaque
  feature records; the model holds the feature list it is constructed with, and
  \<^verbatim>\<open>GeoJSON(features=v)\<close> is refused by the schema when \<open>v\<close> is not a list.
\<close>

datatype geojson = GeoJSON (features: "json list")

fun make_GeoJSON :: "json \<Rightarrow> error + geojson" where
  "make_GeoJSON (JArr fs) = Inr (GeoJSON fs)"
| "make_GeoJSON v = Inl ValidationError"

text \<open>The expression \<^verbatim>\<open>GeoJSON(features=res.json()['features'])\<close>.\<close>

definition feature_collection :: "response \<Rightarrow> error + geojson" where
  "feature_collection res =
     (case response_json res of
        Inl e \<Rightarrow> Inl e
      | Inr j \<Rightarrow> (case subscript j ''features'' of
                   Inl e \<Rightarrow> Inl e
                 | Inr fs \<Rightarrow> make_GeoJSON fs))"

text \<open>What a call raised, by class; \<open>None\<close> when it returned.\<close>

definition raised_class :: "'a outcome \<Rightarrow> error_class option" where
  "raised_class out = (case fst out of Inl e \<Rightarrow> Some (class_of e) | Inr v \<Rightarrow> None)"

text \<open>A server that answers every request with the same status code and body.\<close>

definition respond :: "int \<Rightarrow> json option \<Rightarrow> http" where
  "respond code b = (\<lambda>req. Inr \<lparr>status_code = code, body = b\<rparr>)"

section \<open>Constants of the module\<close>


definition EVENT_TYPES :: "string option list" where
  "EVENT_TYPES = [None, Some ''TC'', Some ''EQ'', Some ''FL'', Some ''VO'', Some ''DR'', Some ''WF'']"

definition DATA_FORMATS :: "string option list" where
  "DATA_FORMATS = [None, Some ''xml'', Some ''geojson'', Some ''shp'']"

definition ALERT_LEVELS :: "string option list" where
  "ALERT_LEVELS = [None, Some ''green'', Some ''orange'', Some ''red'']"

definition BASE_URL :: string where
  "BASE_URL = ''https://www.gdacs.org/datareport/resources''"

definition API_BASE_URL :: string where
  "API_BASE_URL = ''https://www.gdacs.org/gdacsapi''"

definition LATEST_EVENTS_URL :: string where
  "LATEST_EVENTS_URL = API_BASE_URL @ ''/api/events/geteventlist/latest''"

definition LATEST_EVENTS_URL_4APP :: string where
  "LATEST_EVENTS_URL_4APP = API_BASE_URL @ ''/api/events/geteventlist/EVENTS4APP''"

definition EVENTS_BY_AREA_URL :: string where
  "EVENTS_BY_AREA_URL = API_BASE_URL @ ''/api/events/geteventlist/eventsbyarea''"

definition EVENTS_DATA_URL :: string where
  "EVENTS_DATA_URL = API_BASE_URL @ ''/api/events/geteventdata''"

definition unreachable_msg :: string where
  "unreachable_msg = ''API Error: GDACS API can not be reached.''"

definition invalid_event_type_msg :: string where
  "invalid_event_type_msg = ''API Error: Used an invalid `event_type` parameter in request.''"

definition invalid_data_format_msg :: string where
  "invalid_data_format_msg = ''API Error: Used an invalid `data_format` parameter in request.''"

section \<open>Single-event retrieval: \<^verbatim>\<open>get_event\<close> and its three handlers\<close>

text \<open>
  \<^verbatim>\<open>os.path.join\<close> on a POSIX host: a component that starts with the separator replaces
  what was joined so far, a component after an empty path or after a trailing separator
  is appended as it is, any other is appended after a separator. A component that is
  not a string raises \<^verbatim>\<open>TypeError\<close>. (On Windows the separator is the backslash, which
  the handlers replace by the forward slash afterwards.)
\<close>

definition join_step :: "string \<Rightarrow> string \<Rightarrow> string" where
  "join_step path b =
     (if take 1 b = ''/'' then b
      else if path = [] \<or> last path = CHR ''/'' then path @ b
      else path @ ''/'' @ b)"

fun join :: "string \<Rightarrow> string option list \<Rightarrow> error + string" where
  "join a [] = Inr a"
| "join a (None # p) = Inl TypeError"
| "join a (Some b # p) = join (join_step a b) p"

text \<open>\<^verbatim>\<open>.replace("\\", "/")\<close>: every backslash becomes a forward slash.\<close>

definition replace_backslash :: "string \<Rightarrow> string" where
  "replace_backslash s = map (\<lambda>c. if c = CHR 0x5C then CHR ''/'' else c) s"

text \<open>
  The expression \<^verbatim>\<open>join(BASE_URL, event_type, event_id, file_name).replace("\\", "/")\<close>
  that the three handlers share.
\<close>

definition resource_path :: "string option \<Rightarrow> string \<Rightarrow> string \<Rightarrow> error + string" where
  "resource_path event_type event_id file_name =
     (case join BASE_URL [event_type, Some event_id, Some file_name] of
        Inl e \<Rightarrow> Inl e
      | Inr p \<Rightarrow> Inr (replace_backslash p))"

text \<open>The \<^verbatim>\<open>file_name\<close> assignments of the three handlers.\<close>

definition geojson_file_name :: "string \<Rightarrow> string option \<Rightarrow> string" where
  "geojson_file_name event_id episode_id =
     ''geojson_'' @ event_id @ ''_'' @ py_str episode_id @ ''.geojson''"

definition shp_file_name :: "string \<Rightarrow> string option \<Rightarrow> string" where
  "shp_file_name event_id episode_id =
     ''Shape_'' @ event_id @ ''_'' @ py_str episode_id @ ''.zip''"

text \<open>\<^verbatim>\<open>not episode_id\<close> holds for \<^verbatim>\<open>None\<close> and for the empty string.\<close>

definition xml_file_name :: "string \<Rightarrow> string option \<Rightarrow> bool \<Rightarrow> string" where
  "xml_file_name event_id episode_id cap_file =
     (if cap_file then ''cap_'' @ event_id @ ''.xml''
      else if episode_id = None \<or> episode_id = Some [] then ''rss_'' @ event_id @ ''.xml''
      else ''rss_'' @ event_id @ ''_'' @ py_str episode_id @ ''.xml'')"

text \<open>
  The file-format helpers \<^verbatim>\<open>handle_geojson\<close>, \<^verbatim>\<open>download_shp\<close> and \<^verbatim>\<open>handle_xml\<close> come
  from \<^verbatim>\<open>gdacs.utils\<close>, which is not among the sources: the handlers take them as
  parameters, each a function from the resource path to its outcome.
\<close>

record 'p collaborators =
  handle_geojson :: "string \<Rightarrow> 'p outcome"
  download_shp :: "string \<Rightarrow> 'p outcome"
  handle_xml :: "string \<Rightarrow> 'p outcome"

definition get_geojson_event ::
  "'p collaborators \<Rightarrow> string option \<Rightarrow> string \<Rightarrow> string option \<Rightarrow> 'p outcome" where
  "get_geojson_event co event_type event_id episode_id =
     (case resource_path event_type event_id (geojson_file_name event_id episode_id) of
        Inl e \<Rightarrow> (Inl e, [])
      | Inr geojson_path \<Rightarrow> handle_geojson co geojson_path)"

definition get_shp_event ::
  "'p collaborators \<Rightarrow> string option \<Rightarrow> string \<Rightarrow> string option \<Rightarrow> 'p outcome" where
  "get_shp_event co event_type event_id episode_id =
     (case resource_path event_type event_id (shp_file_name event_id episode_id) of
        Inl e \<Rightarrow> (Inl e, [])
      | Inr shp_path \<Rightarrow> download_shp co shp_path)"

definition get_xml_event ::
  "'p collaborators \<Rightarrow> string option \<Rightarrow> string \<Rightarrow> string option \<Rightarrow> bool \<Rightarrow> 'p outcome" where
  "get_xml_event co event_type event_id episode_id cap_file =
     (case resource_path event_type event_id (xml_file_name event_id episode_id cap_file) of
        Inl e \<Rightarrow> (Inl e, [])
      | Inr xml_path \<Rightarrow> handle_xml co xml_path)"

definition get_event ::
  "'p collaborators \<Rightarrow> string \<Rightarrow> string option \<Rightarrow> string option \<Rightarrow> string option \<Rightarrow> bool
     \<Rightarrow> 'p outcome" where
  "get_event co event_id event_type episode_id source_format cap_file =
     (if event_type \<notin> set EVENT_TYPES then (Inl (GDACSAPIError invalid_event_type_msg), [])
      else if source_format \<notin> set DATA_FORMATS then
        (Inl (GDACSAPIError invalid_data_format_msg), [])
      else if source_format = Some ''geojson'' then
        get_geojson_event co event_type event_id episode_id
      else if source_format = Some ''shp'' then
        get_shp_event co event_type event_id episode_id
      else get_xml_event co event_type event_id episode_id cap_file)"

section \<open>The list operations\<close>

subsection \<open>\<^verbatim>\<open>latest_events_4app\<close>\<close>

text \<open>
  The list comprehension over the features: each event's
  \<^verbatim>\<open>event['properties']['eventtype']\<close> is read before the test, so an event without it
  raises whatever \<^verbatim>\<open>event_type\<close> is. \<^verbatim>\<open>event_type in [None, t]\<close> holds when
  \<^verbatim>\<open>event_type\<close> is \<^verbatim>\<open>None\<close> or equals \<open>t\<close>.
\<close>

definition event_type_of :: "json \<Rightarrow> error + json" where
  "event_type_of event =
     (case subscript event ''properties'' of
        Inl e \<Rightarrow> Inl e
      | Inr props \<Rightarrow> subscript props ''eventtype'')"

fun select_events :: "string option \<Rightarrow> json list \<Rightarrow> error + json list" where
  "select_events event_type [] = Inr []"
| "select_events event_type (event # rest) =
     (case event_type_of event of
        Inl e \<Rightarrow> Inl e
      | Inr t \<Rightarrow>
          (case select_events event_type rest of
             Inl e \<Rightarrow> Inl e
           | Inr events \<Rightarrow>
               Inr (if (case event_type of None \<Rightarrow> True | Some s \<Rightarrow> t = JStr s)
                    then event # events else events)))"

text \<open>
  \<^verbatim>\<open>events[:limit]\<close>: the whole list for \<^verbatim>\<open>None\<close>, the first \<open>k\<close> items for \<open>k \<ge> 0\<close>,
  all but the last \<open>-k\<close> items for a negative \<open>k\<close>.
\<close>

definition slice_to :: "'a list \<Rightarrow> int option \<Rightarrow> 'a list" where
  "slice_to xs limit =
     (case limit of
        None \<Rightarrow> xs
      | Some k \<Rightarrow> if k < 0 then take (nat (int (length xs) + k)) xs else take (nat k) xs)"

definition request_4app :: request where
  "request_4app = \<lparr>url = LATEST_EVENTS_URL_4APP, params = []\<rparr>"

text \<open>
  The body after a 200 response. \<^verbatim>\<open>json.loads(json.dumps(events[:limit]))\<close> copies the
  decoded features and is the identity on them.
\<close>

definition features_4app :: "response \<Rightarrow> string option \<Rightarrow> int option \<Rightarrow> error + geojson" where
  "features_4app res event_type limit =
     (case response_json res of
        Inl e \<Rightarrow> Inl e
      | Inr j \<Rightarrow>
          (case subscript j ''features'' of
             Inl e \<Rightarrow> Inl e
           | Inr fs \<Rightarrow>
               (case py_iter fs of
                  Inl e \<Rightarrow> Inl e
                | Inr items \<Rightarrow>
                    (case select_events event_type items of
                       Inl e \<Rightarrow> Inl e
                     | Inr events \<Rightarrow> Inr (GeoJSON (slice_to events limit))))))"

definition latest_events_4app :: "http \<Rightarrow> string option \<Rightarrow> int option \<Rightarrow> geojson outcome" where
  "latest_events_4app http event_type limit =
     (if event_type \<notin> set EVENT_TYPES then (Inl (GDACSAPIError invalid_event_type_msg), [])
      else
        (case http request_4app of
           Inl e \<Rightarrow> Inl e
         | Inr res \<Rightarrow>
             if status_code res \<noteq> 200 then
               Inl (GDACSAPIError ''API Error: GDACS RSS feed can not be reached.'')
             else features_4app res event_type limit,
         [request_4app]))"

subsection \<open>\<^verbatim>\<open>latest_events\<close>\<close>

text \<open>\<^verbatim>\<open>s.split(',')\<close>: the pieces between the commas, one more than there are commas.\<close>

fun split_on :: "char \<Rightarrow> string \<Rightarrow> string list" where
  "split_on sep [] = [[]]"
| "split_on sep (c # cs) =
     (if c = sep then [] # split_on sep cs
      else (case split_on sep cs of
              [] \<Rightarrow> [[c]]
            | w # ws \<Rightarrow> (c # w) # ws))"

text \<open>
  \<^verbatim>\<open>s.strip()\<close> removes the white space of both ends; for code points below 256 the
  white space of Python's \<^verbatim>\<open>str\<close> is the set below.
\<close>

definition py_isspace :: "char \<Rightarrow> bool" where
  "py_isspace c \<longleftrightarrow>
     c \<in> set [CHR 0x09, CHR 0x0A, CHR 0x0B, CHR 0x0C, CHR 0x0D, CHR 0x1C, CHR 0x1D, CHR 0x1E,
              CHR 0x1F, CHR 0x20, CHR 0x85, CHR 0xA0]"

definition strip :: "string \<Rightarrow> string" where
  "strip s = rev (dropWhile py_isspace (rev (dropWhile py_isspace s)))"

definition event_types_of :: "string \<Rightarrow> string list" where
  "event_types_of event_list = map strip (split_on CHR '','' event_list)"

text \<open>
  Lines 81 to 88: the first component of a non-empty \<^verbatim>\<open>event_list\<close> that is not an event
  type raises, then an \<^verbatim>\<open>alert_level\<close> that is non-empty and not an alert level.
\<close>

definition event_list_error :: "string option \<Rightarrow> error option" where
  "event_list_error event_list =
     (case event_list of
        None \<Rightarrow> None
      | Some s \<Rightarrow>
          if s = [] then None
          else (case find (\<lambda>et. Some et \<notin> set EVENT_TYPES) (event_types_of s) of
                  None \<Rightarrow> None
                | Some et \<Rightarrow>
                    Some (ValueError (''API Error: Invalid event type '' @ [CHR 0x27] @ et
                                      @ [CHR 0x27] @ '' in event_list''))))"

definition alert_level_error :: "string option \<Rightarrow> error option" where
  "alert_level_error alert_level =
     (case alert_level of
        None \<Rightarrow> None
      | Some a \<Rightarrow>
          if a \<noteq> [] \<and> Some a \<notin> set ALERT_LEVELS then
            Some (ValueError (''API Error: Invalid alert level '' @ [CHR 0x27] @ a
                              @ [CHR 0x27] @ '' in alert_level''))
          else None)"

definition latest_events_validate :: "string option \<Rightarrow> string option \<Rightarrow> error option" where
  "latest_events_validate event_list alert_level =
     (case event_list_error event_list of
        Some e \<Rightarrow> Some e
      | None \<Rightarrow> alert_level_error alert_level)"

text \<open>Lines 91 to 102: the dict of the seven parameters, without those that are \<^verbatim>\<open>None\<close>.\<close>

definition latest_events_params ::
  "string option \<Rightarrow> string option \<Rightarrow> string option \<Rightarrow> string option \<Rightarrow> int option
     \<Rightarrow> int option \<Rightarrow> int option \<Rightarrow> (string \<times> pyval) list" where
  "latest_events_params event_list alert_level date_modified country severity page_size
       page_number =
     filter (\<lambda>kv. snd kv \<noteq> VNone)
       [(''eventlist'', of_str event_list),
        (''alertlevel'', of_str alert_level),
        (''datemodified'', of_str date_modified),
        (''country'', of_str country),
        (''severity'', of_int_opt severity),
        (''pagesize'', of_int_opt page_size),
        (''pagenumber'', of_int_opt page_number)]"

text \<open>
  The status-code policy that \<^verbatim>\<open>latest_events\<close> and \<^verbatim>\<open>get_events_by_area\<close> share
  word for word: 204 is an empty collection, any other code but 200 raises.
\<close>

definition map_list_response :: "response \<Rightarrow> error + geojson" where
  "map_list_response res =
     (if status_code res = 204 then Inr (GeoJSON [])
      else if status_code res \<noteq> 200 then Inl (GDACSAPIError unreachable_msg)
      else feature_collection res)"

definition latest_events ::
  "http \<Rightarrow> string option \<Rightarrow> string option \<Rightarrow> string option \<Rightarrow> string option \<Rightarrow> int option
     \<Rightarrow> int option \<Rightarrow> int option \<Rightarrow> geojson outcome" where
  "latest_events http event_list alert_level date_modified country severity page_size
       page_number =
     (case latest_events_validate event_list alert_level of
        Some e \<Rightarrow> (Inl e, [])
      | None \<Rightarrow>
          (let req = \<lparr>url = LATEST_EVENTS_URL,
                      params = latest_events_params event_list alert_level date_modified
                                 country severity page_size page_number\<rparr>
           in (case http req of
                 Inl e \<Rightarrow> Inl e
               | Inr res \<Rightarrow> map_list_response res,
               [req])))"

text \<open>The defaults of the signature: \<^verbatim>\<open>page_size=100\<close>, \<^verbatim>\<open>page_number=1\<close>, the rest \<^verbatim>\<open>None\<close>.\<close>

definition latest_events_no_args :: "http \<Rightarrow> geojson outcome" where
  "latest_events_no_args http = latest_events http None None None None None (Some 100) (Some 1)"

subsection \<open>\<^verbatim>\<open>get_events_by_area\<close>\<close>

text \<open>
  \<^verbatim>\<open>from_wkt\<close> belongs to the geometry library \<^verbatim>\<open>pygeoif\<close>. The operation only looks at
  how the call ends: it returns, it raises an \<^verbatim>\<open>AttributeError\<close> or a \<^verbatim>\<open>TypeError\<close>, or
  it raises another exception, whose text \<^verbatim>\<open>str(e)\<close> goes into the message. The parser
  is a parameter that gives this for each argument.
\<close>

datatype wkt_result = WktParsed | WktAttributeOrTypeError | WktOtherError string

definition area_params :: "string option \<Rightarrow> int option \<Rightarrow> (string \<times> pyval) list" where
  "area_params geometry_area days =
     [(''geometryArea'', of_str geometry_area), (''days'', of_int_opt days)]"

definition get_events_by_area ::
  "(string option \<Rightarrow> wkt_result) \<Rightarrow> http \<Rightarrow> string option \<Rightarrow> int option \<Rightarrow> geojson outcome" where
  "get_events_by_area from_wkt http geometry_area days =
     (case from_wkt geometry_area of
        WktAttributeOrTypeError \<Rightarrow>
          (Inl (ValueError (''API Error: Invalid geometry_area '' @ [CHR 0x27]
                            @ py_str geometry_area @ [CHR 0x27])), [])
      | WktOtherError m \<Rightarrow> (Inl (GDACSAPIError (''API Error: '' @ m)), [])
      | WktParsed \<Rightarrow>
          (let req = \<lparr>url = EVENTS_BY_AREA_URL, params = area_params geometry_area days\<rparr>
           in (case http req of
                 Inl e \<Rightarrow> Inl e
               | Inr res \<Rightarrow> map_list_response res,
               [req])))"

subsection \<open>\<^verbatim>\<open>get_events_data\<close>\<close>

definition data_params :: "int \<Rightarrow> string option \<Rightarrow> string option \<Rightarrow> (string \<times> pyval) list" where
  "data_params event_id event_type source =
     filter (\<lambda>kv. snd kv \<noteq> VNone)
       [(''eventid'', VInt event_id),
        (''eventtype'', of_str event_type),
        (''source'', of_str source)]"

definition get_events_data ::
  "http \<Rightarrow> int \<Rightarrow> string option \<Rightarrow> string option \<Rightarrow> geojson outcome" where
  "get_events_data http event_id event_type source =
     (if event_type \<notin> set EVENT_TYPES then (Inl (GDACSAPIError invalid_event_type_msg), [])
      else
        (let req = \<lparr>url = EVENTS_DATA_URL, params = data_params event_id event_type source\<rparr>
         in (case http req of
               Inl e \<Rightarrow> Inl e
             | Inr res \<Rightarrow>
                 if status_code res = 404 then Inl (GDACSAPIError ''API Error: Event ID not found.'')
                 else if status_code res \<noteq> 200 then Inl (GDACSAPIError unreachable_msg)
                 else feature_collection res,
             [req])))"

section \<open>The TTL cache around each public operation\<close>

text \<open>
  Each public method is decorated with
  \<^verbatim>\<open>@cached(cache=TTLCache(maxsize=500, ttl=CACHE_TTL))\<close> of the library \<^verbatim>\<open>cachetools\<close>.
  The cache is the list of its entries, least recently used first; an entry is the key
  (the arguments of the call), the stored result and the time at which it expires. Time
  is the reading of the cache's monotonic timer, in seconds, and every call gets the
  readings it makes as arguments.
\<close>

type_synonym ('k, 'v) ttl_cache = "('k \<times> 'v \<times> real) list"

definition move_to_end :: "'k \<Rightarrow> ('k, 'v) ttl_cache \<Rightarrow> ('k, 'v) ttl_cache" where
  "move_to_end k c = filter (\<lambda>e. fst e \<noteq> k) c @ filter (\<lambda>e. fst e = k) c"

text \<open>
  \<^verbatim>\<open>cache[k]\<close>: an entry that is present becomes the most recently used one, and its
  value is returned while the timer is below its expiry; otherwise the lookup fails.
\<close>

definition cache_getitem ::
  "real \<Rightarrow> ('k, 'v) ttl_cache \<Rightarrow> 'k \<Rightarrow> 'v option \<times> ('k, 'v) ttl_cache" where
  "cache_getitem now c k =
     (case map_of c k of
        None \<Rightarrow> (None, c)
      | Some (v, expires) \<Rightarrow> (if now < expires then Some v else None, move_to_end k c))"

definition expire :: "real \<Rightarrow> ('k, 'v) ttl_cache \<Rightarrow> ('k, 'v) ttl_cache" where
  "expire now c = filter (\<lambda>e. now < snd (snd e)) c"

text \<open>
  \<^verbatim>\<open>cache[k] = v\<close>: the expired entries go first; for a new key the least recently used
  entries are dropped until there is room for one more; the entry is stored as the most
  recently used one and expires \<open>ttl\<close> after the store.
\<close>

definition cache_setitem ::
  "nat \<Rightarrow> real \<Rightarrow> real \<Rightarrow> ('k, 'v) ttl_cache \<Rightarrow> 'k \<Rightarrow> 'v \<Rightarrow> ('k, 'v) ttl_cache" where
  "cache_setitem maxsize ttl now c k v =
     (let c1 = expire now c;
          c2 = (if map_of c1 k \<noteq> None then c1 else drop (length c1 + 1 - maxsize) c1)
      in filter (\<lambda>e. fst e \<noteq> k) c2 @ [(k, v, now + ttl)])"

text \<open>
  The wrapper of \<^verbatim>\<open>cached\<close>: a live entry is returned without running the function;
  otherwise the function runs, a result it returns is stored (unless the cache has no
  room for a single entry), and an exception it raises passes through with nothing stored.
  \<open>t_get\<close> is the timer at the lookup, \<open>t_set\<close> the timer at the store.
\<close>

definition cached ::
  "nat \<Rightarrow> real \<Rightarrow> ('k \<Rightarrow> 'v outcome) \<Rightarrow> real \<Rightarrow> real \<Rightarrow> ('k, 'v) ttl_cache \<Rightarrow> 'k
     \<Rightarrow> 'v outcome \<times> ('k, 'v) ttl_cache" where
  "cached maxsize ttl func t_get t_set c k =
     (case cache_getitem t_get c k of
        (Some v, c') \<Rightarrow> ((Inr v, []), c')
      | (None, c') \<Rightarrow>
          (case func k of
             (Inr v, reqs) \<Rightarrow>
               ((Inr v, reqs), if maxsize < 1 then c' else cache_setitem maxsize ttl t_set c' k v)
           | (Inl e, reqs) \<Rightarrow> ((Inl e, reqs), c')))"








subsection \<open>What the cache is expected to do\<close>






section \<open>The shapefile download\<close>

text \<open>
  Modelled from the spec: \<^verbatim>\<open>download_shp\<close> of \<^verbatim>\<open>gdacs.utils\<close>, which is not among the
  sources. The spec has it download and extract the archive and return ``a human-readable
  confirmation string naming the downloaded archive'', with the absence of the remote
  resource an upstream failure; the test suite gives the text of the string.
\<close>

definition basename :: "string \<Rightarrow> string" where
  "basename p = rev (takeWhile (\<lambda>c. c \<noteq> CHR ''/'') (rev p))"

definition download_shp_spec :: "http \<Rightarrow> string \<Rightarrow> string outcome" where
  "download_shp_spec http shp_path =
     (let req = \<lparr>url = shp_path, params = []\<rparr>
      in (case http req of
            Inl e \<Rightarrow> Inl e
          | Inr res \<Rightarrow>
              if status_code res \<noteq> 200 then Inl (GDACSAPIError unreachable_msg)
              else Inr (''Downloaded '' @ basename shp_path @ '' in directory.''),
          [req]))"

section \<open>Sample inputs\<close>

text \<open>Two features as the server sends them, cut down to what the client reads.\<close>

definition tc_event :: json where
  "tc_event = JObj [(''properties'', JObj [(''eventtype'', JStr ''TC'')])]"

definition eq_event :: json where
  "eq_event = JObj [(''properties'', JObj [(''eventtype'', JStr ''EQ'')])]"

definition sample_body :: json where
  "sample_body = JObj [(''features'', JArr [tc_event, eq_event, tc_event])]"

text \<open>
  A parser that accepts the point of the test suite and rejects every other argument
  with an \<^verbatim>\<open>AttributeError\<close>, as the tests expect of \<^verbatim>\<open>None\<close>, the empty string and
  \<^verbatim>\<open>"NOT A WKT STRING"\<close>.
\<close>

definition sample_from_wkt :: "string option \<Rightarrow> wkt_result" where
  "sample_from_wkt g = (if g = Some ''POINT(0 0)'' then WktParsed else WktAttributeOrTypeError)"

text \<open>
  Collaborators for the sample calls: the shapefile download as modelled above, against a
  server that answers 200, and two stand-ins that request the path and return it.
\<close>

definition fetch_stub :: "string \<Rightarrow> string outcome" where
  "fetch_stub p = (Inr p, [\<lparr>url = p, params = []\<rparr>])"

definition sample_collaborators :: "string collaborators" where
  "sample_collaborators =
     \<lparr>handle_geojson = fetch_stub,
      download_shp = download_shp_spec (respond 200 None),
      handle_xml = fetch_stub\<rparr>"

text \<open>The archive of the shapefile call of the test suite.\<close>

definition shp_url :: string where
  "shp_url = ''https://www.gdacs.org/datareport/resources/TC/1000132/Shape_1000132_8.zip''"


section \<open>Properties of single-event retrieval\<close>

subsection \<open>Path construction\<close>

lemma resource_path_None: "resource_path None event_id file_name = Inl TypeError"
  by (simp add: resource_path_def)

lemma map_slash_id:
  "CHR 0x5C \<notin> set s \<Longrightarrow> map (\<lambda>c. if c = CHR 0x5C then CHR ''/'' else c) s = s"
  by (induction s) auto

lemma join_step_plain:
  "path \<noteq> [] \<Longrightarrow> last path \<noteq> CHR ''/'' \<Longrightarrow> b \<noteq> [] \<Longrightarrow> hd b \<noteq> CHR ''/'' \<Longrightarrow>
     join_step path b = path @ ''/'' @ b"
  by (cases b) (auto simp: join_step_def)

lemma event_type_plain:
  "Some et \<in> set EVENT_TYPES \<Longrightarrow>
     et \<noteq> [] \<and> hd et \<noteq> CHR ''/'' \<and> last et \<noteq> CHR ''/'' \<and> CHR 0x5C \<notin> set et"
  by (auto simp: EVENT_TYPES_def)

lemma BASE_URL_plain: "BASE_URL \<noteq> [] \<and> last BASE_URL \<noteq> CHR ''/'' \<and> CHR 0x5C \<notin> set BASE_URL"
  by (simp add: BASE_URL_def)

lemma resource_path_joined:
  assumes et: "Some et \<in> set EVENT_TYPES"
    and eid: "eid \<noteq> []" "hd eid \<noteq> CHR ''/''" "last eid \<noteq> CHR ''/''"
    and fn: "fn \<noteq> []" "hd fn \<noteq> CHR ''/''"
  shows "resource_path (Some et) eid fn
           = Inr (map (\<lambda>c. if c = CHR 0x5C then CHR ''/'' else c)
                    (BASE_URL @ ''/'' @ et @ ''/'' @ eid @ ''/'' @ fn))"
proof -
  note p = event_type_plain [OF et]
  have 1: "join_step BASE_URL et = BASE_URL @ ''/'' @ et"
    using p BASE_URL_plain by (simp add: join_step_plain)
  have 2: "join_step (BASE_URL @ ''/'' @ et) eid = BASE_URL @ ''/'' @ et @ ''/'' @ eid"
    using p eid by (simp add: join_step_plain)
  have 3: "join_step (BASE_URL @ ''/'' @ et @ ''/'' @ eid) fn
      = BASE_URL @ ''/'' @ et @ ''/'' @ eid @ ''/'' @ fn"
    using eid fn by (simp add: join_step_plain)
  have "join BASE_URL [Some et, Some eid, Some fn]
      = Inr (BASE_URL @ ''/'' @ et @ ''/'' @ eid @ ''/'' @ fn)"
    by (simp only: join.simps 1 2 3)
  then show ?thesis
    by (simp only: resource_path_def replace_backslash_def sum.case)
qed

lemma basename_shp_url: "basename shp_url = ''Shape_1000132_8.zip''"
  by (simp add: basename_def shp_url_def)

text \<open>
  C7, as amended. For an event type of the allow-list and a non-empty \<^verbatim>\<open>event_id\<close> that
  neither starts nor ends with a slash, the shapefile handler hands to \<^verbatim>\<open>download_shp\<close>
  the path \<^verbatim>\<open>BASE_URL/event_type/event_id/Shape_{event_id}_{episode_id}.zip\<close> in which every
  backslash of the identifiers has become a forward slash; for identifiers without a
  backslash this is the path of the template itself. And when the download of that
  archive answers 200,
  \<^verbatim>\<open>get_event(event_type='TC', event_id='1000132', episode_id='8', source_format='shp')\<close>
  issues the one request for it and returns the confirmation string of the test suite,
  which names \<^verbatim>\<open>Shape_1000132_8.zip\<close>.
\<close>

theorem shp_path_and_confirmation:
  "(Some et \<in> set EVENT_TYPES \<and> event_id \<noteq> [] \<and> hd event_id \<noteq> CHR ''/''
      \<and> last event_id \<noteq> CHR ''/'' \<longrightarrow>
      get_shp_event co (Some et) event_id episode_id =
        download_shp co
          (map (\<lambda>c. if c = CHR 0x5C then CHR ''/'' else c)
             (BASE_URL @ ''/'' @ et @ ''/'' @ event_id @ ''/''
              @ ''Shape_'' @ event_id @ ''_'' @ py_str episode_id @ ''.zip''))
      \<and> (CHR 0x5C \<notin> set event_id \<and> CHR 0x5C \<notin> set (py_str episode_id) \<longrightarrow>
          get_shp_event co (Some et) event_id episode_id =
            download_shp co
              (BASE_URL @ ''/'' @ et @ ''/'' @ event_id @ ''/''
               @ ''Shape_'' @ event_id @ ''_'' @ py_str episode_id @ ''.zip'')))
   \<and> ((\<exists>res. http \<lparr>url = shp_url, params = []\<rparr> = Inr res \<and> status_code res = 200) \<longrightarrow>
      get_event \<lparr>handle_geojson = hg, download_shp = download_shp_spec http, handle_xml = hx\<rparr>
          ''1000132'' (Some ''TC'') (Some ''8'') (Some ''shp'') cap_file =
        (Inr ''Downloaded Shape_1000132_8.zip in directory.'', [\<lparr>url = shp_url, params = []\<rparr>]))"
proof (intro conjI impI)
  assume a: "Some et \<in> set EVENT_TYPES \<and> event_id \<noteq> [] \<and> hd event_id \<noteq> CHR ''/''
      \<and> last event_id \<noteq> CHR ''/''"
  then have "resource_path (Some et) event_id (shp_file_name event_id episode_id) =
     Inr (map (\<lambda>c. if c = CHR 0x5C then CHR ''/'' else c)
            (BASE_URL @ ''/'' @ et @ ''/'' @ event_id @ ''/''
             @ shp_file_name event_id episode_id))"
    by (intro resource_path_joined) (simp_all add: shp_file_name_def)
  then show g: "get_shp_event co (Some et) event_id episode_id =
        download_shp co
          (map (\<lambda>c. if c = CHR 0x5C then CHR ''/'' else c)
             (BASE_URL @ ''/'' @ et @ ''/'' @ event_id @ ''/''
              @ ''Shape_'' @ event_id @ ''_'' @ py_str episode_id @ ''.zip''))"
    by (simp add: get_shp_event_def shp_file_name_def)
  assume b: "CHR 0x5C \<notin> set event_id \<and> CHR 0x5C \<notin> set (py_str episode_id)"
  have "CHR 0x5C \<notin> set (BASE_URL @ ''/'' @ et @ ''/'' @ event_id @ ''/''
              @ ''Shape_'' @ event_id @ ''_'' @ py_str episode_id @ ''.zip'')"
    using a b event_type_plain [of et] BASE_URL_plain by simp
  from map_slash_id [OF this]
  show "get_shp_event co (Some et) event_id episode_id =
            download_shp co
              (BASE_URL @ ''/'' @ et @ ''/'' @ event_id @ ''/''
               @ ''Shape_'' @ event_id @ ''_'' @ py_str episode_id @ ''.zip'')"
    unfolding g by (simp only:)
next
  assume "\<exists>res. http \<lparr>url = shp_url, params = []\<rparr> = Inr res \<and> status_code res = 200"
  then obtain res where r: "http \<lparr>url = shp_url, params = []\<rparr> = Inr res" "status_code res = 200"
    by blast
  have p: "resource_path (Some ''TC'') ''1000132'' (shp_file_name ''1000132'' (Some ''8'')) = Inr shp_url"
    by (simp add: resource_path_def shp_file_name_def BASE_URL_def join_step_def
        replace_backslash_def shp_url_def)
  show "get_event \<lparr>handle_geojson = hg, download_shp = download_shp_spec http, handle_xml = hx\<rparr>
          ''1000132'' (Some ''TC'') (Some ''8'') (Some ''shp'') cap_file =
        (Inr ''Downloaded Shape_1000132_8.zip in directory.'', [\<lparr>url = shp_url, params = []\<rparr>])"
    by (simp add: get_event_def EVENT_TYPES_def DATA_FORMATS_def get_shp_event_def p
        download_shp_spec_def r basename_shp_url)
qed

text \<open>
  C7, witness: the path of another event of the test suite, an identifier with a
  backslash in it, and the call of the claim against a server that answers 200.
\<close>

theorem shp_path_and_confirmation_witness:
  "get_shp_event sample_collaborators (Some ''DR'') ''1012428'' (Some ''10'') =
     download_shp sample_collaborators
       ''https://www.gdacs.org/datareport/resources/DR/1012428/Shape_1012428_10.zip''
   \<and> get_shp_event sample_collaborators (Some ''TC'') [CHR ''a'', CHR 0x5C, CHR ''b''] (Some ''8'') =
     download_shp sample_collaborators
       ''https://www.gdacs.org/datareport/resources/TC/a/b/Shape_a/b_8.zip''
   \<and> get_event sample_collaborators ''1000132'' (Some ''TC'') (Some ''8'') (Some ''shp'') False =
        (Inr ''Downloaded Shape_1000132_8.zip in directory.'', [\<lparr>url = shp_url, params = []\<rparr>])"
  using shp_path_and_confirmation
    [of "''DR''" "''1012428''" sample_collaborators "Some ''10''" "respond 200 None"
        fetch_stub fetch_stub False]
    shp_path_and_confirmation
    [of "''TC''" "[CHR ''a'', CHR 0x5C, CHR ''b'']" sample_collaborators "Some ''8''"
        "respond 200 None" fetch_stub fetch_stub False]
  by (simp add: EVENT_TYPES_def BASE_URL_def respond_def sample_collaborators_def)

text \<open>
  C7, counterexample to the claim as stated: an \<^verbatim>\<open>event_id\<close> that starts with a slash
  replaces the base URL and the event type; an empty \<^verbatim>\<open>event_id\<close>, or one that ends
  with a slash, leaves one slash where the template has two; a backslash in the
  \<^verbatim>\<open>event_id\<close> comes out as a forward slash.
\<close>

theorem shp_path_separator_counterexample:
  "get_shp_event sample_collaborators (Some ''TC'') ''/x'' (Some ''8'')
     = download_shp sample_collaborators ''/x/Shape_/x_8.zip''
   \<and> get_shp_event sample_collaborators (Some ''TC'') '''' (Some ''8'')
     = download_shp sample_collaborators
         ''https://www.gdacs.org/datareport/resources/TC/Shape__8.zip''
   \<and> get_shp_event sample_collaborators (Some ''TC'') ''x/'' (Some ''8'')
     = download_shp sample_collaborators
         ''https://www.gdacs.org/datareport/resources/TC/x/Shape_x/_8.zip''
   \<and> get_shp_event sample_collaborators (Some ''TC'') [CHR ''a'', CHR 0x5C, CHR ''b''] (Some ''8'')
     = download_shp sample_collaborators
         ''https://www.gdacs.org/datareport/resources/TC/a/b/Shape_a/b_8.zip''"
  by (simp add: get_shp_event_def resource_path_def shp_file_name_def BASE_URL_def
      join_step_def replace_backslash_def)

subsection \<open>An unset event type\<close>

text \<open>
  C9. \<^verbatim>\<open>None\<close> is a member of \<^verbatim>\<open>EVENT_TYPES\<close>, so a call of \<^verbatim>\<open>get_event\<close> with
  \<^verbatim>\<open>event_type\<close> unset passes the first check; once the source format has passed its own
  check, whichever handler is chosen fails in \<^verbatim>\<open>os.path.join\<close> with a \<^verbatim>\<open>TypeError\<close>,
  which nothing catches, before any collaborator is called. The library's own
  \<^verbatim>\<open>GDACSAPIError\<close> is not what is raised.
\<close>

theorem get_event_None_type_error:
  "None \<in> set EVENT_TYPES \<and>
   (source_format \<in> set DATA_FORMATS \<longrightarrow>
     get_event co event_id None episode_id source_format cap_file = (Inl TypeError, []))"
  by (simp add: get_event_def EVENT_TYPES_def get_geojson_event_def get_shp_event_def
      get_xml_event_def resource_path_None)

text \<open>
  C9, witness: \<^verbatim>\<open>get_event('1000132')\<close>, every other argument at its default, and the
  shapefile call of the test suite without its event type.
\<close>

theorem get_event_None_type_error_witness:
  "None \<in> set DATA_FORMATS
   \<and> get_event sample_collaborators ''1000132'' None None None False = (Inl TypeError, [])
   \<and> Some ''shp'' \<in> set DATA_FORMATS
   \<and> get_event sample_collaborators ''1000132'' None (Some ''8'') (Some ''shp'') False
     = (Inl TypeError, [])"
  using get_event_None_type_error [of None sample_collaborators "''1000132''" None False]
    get_event_None_type_error
    [of "Some ''shp''" sample_collaborators "''1000132''" "Some ''8''" False]
  by (simp add: DATA_FORMATS_def)

subsection \<open>An unset episode\<close>

text \<open>
  C10. With \<^verbatim>\<open>episode_id\<close> unset, the GeoJSON handler asks for
  \<^verbatim>\<open>geojson_{event_id}_None.geojson\<close> and the shapefile handler for
  \<^verbatim>\<open>Shape_{event_id}_None.zip\<close>: the f-string prints \<^verbatim>\<open>None\<close> into the name. The XML
  handler (without the CAP flag) leaves the episode out and asks for
  \<^verbatim>\<open>rss_{event_id}.xml\<close>.
\<close>

theorem episode_None_file_names:
  "get_geojson_event co event_type event_id None =
     (case resource_path event_type event_id (''geojson_'' @ event_id @ ''_None.geojson'') of
        Inl e \<Rightarrow> (Inl e, []) | Inr p \<Rightarrow> handle_geojson co p)
   \<and> get_shp_event co event_type event_id None =
     (case resource_path event_type event_id (''Shape_'' @ event_id @ ''_None.zip'') of
        Inl e \<Rightarrow> (Inl e, []) | Inr p \<Rightarrow> download_shp co p)
   \<and> get_xml_event co event_type event_id None False =
     (case resource_path event_type event_id (''rss_'' @ event_id @ ''.xml'') of
        Inl e \<Rightarrow> (Inl e, []) | Inr p \<Rightarrow> handle_xml co p)"
  by (simp add: get_geojson_event_def get_shp_event_def get_xml_event_def
      geojson_file_name_def shp_file_name_def xml_file_name_def)

text \<open>
  C10, witness: the event of the test suite without its episode; with the stand-ins the
  result is the path that was asked for.
\<close>

theorem episode_None_file_names_witness:
  "get_geojson_event sample_collaborators (Some ''DR'') ''1012428'' None
     = fetch_stub ''https://www.gdacs.org/datareport/resources/DR/1012428/geojson_1012428_None.geojson''
   \<and> get_xml_event sample_collaborators (Some ''DR'') ''1012428'' None False
     = fetch_stub ''https://www.gdacs.org/datareport/resources/DR/1012428/rss_1012428.xml''"
  using episode_None_file_names [of sample_collaborators "Some ''DR''" "''1012428''"]
  by (simp add: resource_path_def BASE_URL_def join_step_def replace_backslash_def
      sample_collaborators_def)

section \<open>Properties of the list operations\<close>

subsection \<open>Validation of the event type\<close>

lemma event_list_error_invalid:
  assumes "event_list \<noteq> []" "\<exists>et\<in>set (event_types_of event_list). Some et \<notin> set EVENT_TYPES"
  shows "\<exists>m. event_list_error (Some event_list) = Some (ValueError m)"
proof -
  from assms(2) have "find (\<lambda>et. Some et \<notin> set EVENT_TYPES) (event_types_of event_list) \<noteq> None"
    by (auto simp: find_None_iff)
  then show ?thesis using assms(1) by (auto simp: event_list_error_def)
qed

lemma event_types_of_INVALID: "event_types_of ''INVALID'' = [''INVALID'']"
  by (simp add: event_types_of_def strip_def py_isspace_def)

text \<open>
  C1, as amended. An event type outside the allow-list makes every operation that takes
  one raise before any request is issued. \<^verbatim>\<open>latest_events_4app\<close>, \<^verbatim>\<open>get_events_data\<close>
  and \<^verbatim>\<open>get_event\<close> raise \<^verbatim>\<open>GDACSAPIError\<close> with the message about the invalid
  \<^verbatim>\<open>event_type\<close>: the class they also raise for an upstream failure. \<^verbatim>\<open>latest_events\<close>,
  whose event types are the stripped, comma-separated components of a non-empty
  \<^verbatim>\<open>event_list\<close>, raises a \<^verbatim>\<open>ValueError\<close>, a class of its own.
\<close>

theorem invalid_event_type_raises_before_request:
  "(event_type \<notin> set EVENT_TYPES \<longrightarrow>
      latest_events_4app http event_type limit = (Inl (GDACSAPIError invalid_event_type_msg), [])
    \<and> get_events_data http event_id event_type source
        = (Inl (GDACSAPIError invalid_event_type_msg), [])
    \<and> get_event co eid event_type episode_id source_format cap_file
        = (Inl (GDACSAPIError invalid_event_type_msg), []))
   \<and> (event_list \<noteq> [] \<and> (\<exists>et\<in>set (event_types_of event_list). Some et \<notin> set EVENT_TYPES) \<longrightarrow>
      raised_class (latest_events http (Some event_list) alert_level date_modified country
                      severity page_size page_number) = Some ValueError_class
    \<and> snd (latest_events http (Some event_list) alert_level date_modified country
              severity page_size page_number) = [])"
proof (intro conjI impI)
  assume "event_list \<noteq> [] \<and> (\<exists>et\<in>set (event_types_of event_list). Some et \<notin> set EVENT_TYPES)"
  then obtain m where m: "event_list_error (Some event_list) = Some (ValueError m)"
    using event_list_error_invalid by blast
  then show "raised_class (latest_events http (Some event_list) alert_level date_modified country
                      severity page_size page_number) = Some ValueError_class"
    by (simp add: latest_events_def latest_events_validate_def raised_class_def)
  from m show "snd (latest_events http (Some event_list) alert_level date_modified country
              severity page_size page_number) = []"
    by (simp add: latest_events_def latest_events_validate_def)
qed (simp_all add: latest_events_4app_def get_events_data_def get_event_def)

text \<open>
  C1, witness: the invalid type \<^verbatim>\<open>DH\<close> and the invalid list \<^verbatim>\<open>INVALID\<close> of the
  test suite.
\<close>

theorem invalid_event_type_raises_before_request_witness:
  "Some ''DH'' \<notin> set EVENT_TYPES
   \<and> latest_events_4app (respond 200 (Some sample_body)) (Some ''DH'') None
       = (Inl (GDACSAPIError invalid_event_type_msg), [])
   \<and> get_events_data (respond 200 (Some sample_body)) 1012428 (Some ''DH'') None
       = (Inl (GDACSAPIError invalid_event_type_msg), [])
   \<and> get_event sample_collaborators ''1012428'' (Some ''DH'') None (Some ''geojson'') False
       = (Inl (GDACSAPIError invalid_event_type_msg), [])
   \<and> raised_class (latest_events (respond 200 (Some sample_body)) (Some ''INVALID'') None None
                     None None (Some 100) (Some 1)) = Some ValueError_class
   \<and> snd (latest_events (respond 200 (Some sample_body)) (Some ''INVALID'') None None
            None None (Some 100) (Some 1)) = []"
  using invalid_event_type_raises_before_request
    [of "Some ''DH''" "respond 200 (Some sample_body)" None 1012428 None sample_collaborators
        "''1012428''" None
        "Some ''geojson''" False "''INVALID''" None None None None "Some 100" "Some 1"]
  by (simp add: EVENT_TYPES_def event_types_of_INVALID)

text \<open>
  C1, counterexample to the claim as stated: in \<^verbatim>\<open>latest_events_4app\<close> the error for the
  invalid event type \<^verbatim>\<open>DH\<close> (no request issued) and the error for a 500 response (one
  request issued) are of the same class.
\<close>

theorem invalid_event_type_same_class_counterexample:
  "latest_events_4app (respond 500 None) (Some ''DH'') None
     = (Inl (GDACSAPIError invalid_event_type_msg), [])
   \<and> latest_events_4app (respond 500 None) None None
     = (Inl (GDACSAPIError ''API Error: GDACS RSS feed can not be reached.''), [request_4app])
   \<and> raised_class (latest_events_4app (respond 500 None) (Some ''DH'') None)
     = raised_class (latest_events_4app (respond 500 None) None None)"
  by (simp add: latest_events_4app_def EVENT_TYPES_def respond_def raised_class_def)

subsection \<open>The status-code policy\<close>

text \<open>
  C2, as amended. In \<^verbatim>\<open>latest_events\<close> and \<^verbatim>\<open>get_events_by_area\<close>, once validation has
  passed, a 204 response is an empty feature collection and any status other than 200
  and 204 raises \<^verbatim>\<open>GDACSAPIError\<close>. In \<^verbatim>\<open>latest_events_4app\<close> every status other than
  200 raises \<^verbatim>\<open>GDACSAPIError\<close>, 204 included.
\<close>

theorem no_content_policy:
  "(latest_events_validate event_list alert_level = None
      \<and> http \<lparr>url = LATEST_EVENTS_URL,
               params = latest_events_params event_list alert_level date_modified country
                          severity page_size page_number\<rparr> = Inr res \<longrightarrow>
      (status_code res = 204 \<longrightarrow>
         fst (latest_events http event_list alert_level date_modified country severity page_size
                page_number) = Inr (GeoJSON []))
    \<and> (status_code res \<noteq> 200 \<and> status_code res \<noteq> 204 \<longrightarrow>
         fst (latest_events http event_list alert_level date_modified country severity page_size
                page_number) = Inl (GDACSAPIError unreachable_msg)))
   \<and> (from_wkt geometry_area = WktParsed
      \<and> http \<lparr>url = EVENTS_BY_AREA_URL, params = area_params geometry_area days\<rparr> = Inr res' \<longrightarrow>
      (status_code res' = 204 \<longrightarrow>
         fst (get_events_by_area from_wkt http geometry_area days) = Inr (GeoJSON []))
    \<and> (status_code res' \<noteq> 200 \<and> status_code res' \<noteq> 204 \<longrightarrow>
         fst (get_events_by_area from_wkt http geometry_area days)
           = Inl (GDACSAPIError unreachable_msg)))
   \<and> (event_type \<in> set EVENT_TYPES \<and> http request_4app = Inr res'' \<and> status_code res'' \<noteq> 200 \<longrightarrow>
      fst (latest_events_4app http event_type limit)
        = Inl (GDACSAPIError ''API Error: GDACS RSS feed can not be reached.''))"
  by (simp add: latest_events_def get_events_by_area_def latest_events_4app_def
      map_list_response_def Let_def)

text \<open>
  C2, witness: servers that answer 204 and 500.
\<close>

theorem no_content_policy_witness:
  "fst (latest_events (respond 204 None) None None None None None (Some 100) (Some 1))
     = Inr (GeoJSON [])
   \<and> fst (get_events_by_area sample_from_wkt (respond 204 None) (Some ''POINT(0 0)'') None)
     = Inr (GeoJSON [])
   \<and> fst (latest_events_4app (respond 204 None) (Some ''EQ'') (Some 5))
     = Inl (GDACSAPIError ''API Error: GDACS RSS feed can not be reached.'')
   \<and> fst (latest_events (respond 500 None) None None None None None (Some 100) (Some 1))
     = Inl (GDACSAPIError unreachable_msg)
   \<and> fst (get_events_by_area sample_from_wkt (respond 500 None) (Some ''POINT(0 0)'') None)
     = Inl (GDACSAPIError unreachable_msg)"
  using no_content_policy
    [of None None "respond 204 None" None None None "Some 100" "Some 1"
        "\<lparr>status_code = 204, body = None\<rparr>" sample_from_wkt "Some ''POINT(0 0)''" None
        "\<lparr>status_code = 204, body = None\<rparr>" "Some ''EQ''" "\<lparr>status_code = 204, body = None\<rparr>"
        "Some 5"]
    no_content_policy
    [of None None "respond 500 None" None None None "Some 100" "Some 1"
        "\<lparr>status_code = 500, body = None\<rparr>" sample_from_wkt "Some ''POINT(0 0)''" None
        "\<lparr>status_code = 500, body = None\<rparr>" "Some ''EQ''" "\<lparr>status_code = 500, body = None\<rparr>"
        "Some 5"]
  by (simp add: latest_events_validate_def event_list_error_def alert_level_error_def
      respond_def sample_from_wkt_def EVENT_TYPES_def)

text \<open>
  C2, counterexample to the claim as stated: \<^verbatim>\<open>latest_events_4app()\<close> against a server
  that answers 204 raises.
\<close>

theorem no_content_4app_counterexample:
  "latest_events_4app (respond 204 None) None None
     = (Inl (GDACSAPIError ''API Error: GDACS RSS feed can not be reached.''), [request_4app])"
  by (simp add: latest_events_4app_def EVENT_TYPES_def respond_def)

subsection \<open>Validation of the geometry\<close>



subsection \<open>A missing event\<close>

text \<open>
  C4, as amended. On a 404 response \<^verbatim>\<open>get_events_data\<close> raises \<^verbatim>\<open>GDACSAPIError\<close> with
  the message ``API Error: Event ID not found.'', on any other status but 200 it raises
  \<^verbatim>\<open>GDACSAPIError\<close> with the message of the unreachable API. The two errors differ by
  their message and are of the same class.
\<close>

theorem not_found_message:
  "(event_type \<in> set EVENT_TYPES
      \<and> http \<lparr>url = EVENTS_DATA_URL, params = data_params event_id event_type source\<rparr> = Inr res
      \<and> status_code res = 404 \<longrightarrow>
      get_events_data http event_id event_type source
        = (Inl (GDACSAPIError ''API Error: Event ID not found.''),
           [\<lparr>url = EVENTS_DATA_URL, params = data_params event_id event_type source\<rparr>]))
   \<and> (event_type \<in> set EVENT_TYPES
      \<and> http \<lparr>url = EVENTS_DATA_URL, params = data_params event_id event_type source\<rparr> = Inr res
      \<and> status_code res \<noteq> 404 \<and> status_code res \<noteq> 200 \<longrightarrow>
      get_events_data http event_id event_type source
        = (Inl (GDACSAPIError unreachable_msg),
           [\<lparr>url = EVENTS_DATA_URL, params = data_params event_id event_type source\<rparr>]))
   \<and> ''API Error: Event ID not found.'' \<noteq> unreachable_msg
   \<and> class_of (GDACSAPIError ''API Error: Event ID not found.'')
       = class_of (GDACSAPIError unreachable_msg)"
  by (simp add: get_events_data_def Let_def unreachable_msg_def)

text \<open>
  C4, witness: servers that answer 404 and 500.
\<close>

theorem not_found_message_witness:
  "fst (get_events_data (respond 404 None) 1000132 (Some ''TC'') None)
     = Inl (GDACSAPIError ''API Error: Event ID not found.'')
   \<and> fst (get_events_data (respond 500 None) 1000132 (Some ''EQ'') None)
     = Inl (GDACSAPIError unreachable_msg)"
  using not_found_message
    [of "Some ''TC''" "respond 404 None" 1000132 None "\<lparr>status_code = 404, body = None\<rparr>"]
    not_found_message
    [of "Some ''EQ''" "respond 500 None" 1000132 None "\<lparr>status_code = 500, body = None\<rparr>"]
  by (simp add: EVENT_TYPES_def respond_def)

text \<open>
  C4, counterexample to the claim as stated: the error for a 404 response and the error
  for a 500 response are both of the class \<^verbatim>\<open>GDACSAPIError\<close>.
\<close>

theorem not_found_same_class_counterexample:
  "raised_class (get_events_data (respond 404 None) 1000132 (Some ''TC'') None)
     = Some GDACSAPIError_class
   \<and> raised_class (get_events_data (respond 500 None) 1000132 (Some ''TC'') None)
     = Some GDACSAPIError_class"
  by (simp add: get_events_data_def EVENT_TYPES_def respond_def raised_class_def Let_def)

subsection \<open>Limit and filter of \<^verbatim>\<open>latest_events_4app\<close>\<close>

lemma select_events_sound:
  "select_events event_type xs = Inr ys \<Longrightarrow>
     set ys \<subseteq> set xs \<and> (\<forall>f\<in>set ys. \<forall>s. event_type = Some s \<longrightarrow> event_type_of f = Inr (JStr s))"
proof (induction xs arbitrary: ys)
  case Nil
  then show ?case by simp
next
  case (Cons x xs)
  then show ?case
    by (auto split: sum.splits if_splits option.splits)
qed

lemma select_events_returns:
  "\<forall>f\<in>set xs. \<exists>t. event_type_of f = Inr t \<Longrightarrow>
     select_events event_type xs
       = Inr (filter (\<lambda>f. case event_type of None \<Rightarrow> True | Some s \<Rightarrow> event_type_of f = Inr (JStr s)) xs)"
  by (induction xs) (auto split: option.splits)

lemma slice_to_bound: "0 \<le> k \<Longrightarrow> int (length (slice_to xs (Some k))) \<le> k"
  by (simp add: slice_to_def)

lemma set_slice_to: "set (slice_to xs limit) \<subseteq> set xs"
  by (auto simp: slice_to_def dest: in_set_takeD split: option.splits)

lemma features_4app_sound:
  assumes "features_4app res event_type limit = Inr g"
  shows "\<forall>f\<in>set (features g). \<forall>s. event_type = Some s \<longrightarrow> event_type_of f = Inr (JStr s)"
    and "\<And>k. limit = Some k \<Longrightarrow> 0 \<le> k \<Longrightarrow> int (length (features g)) \<le> k"
proof -
  from assms obtain items events where
    s: "select_events event_type items = Inr events" and g: "g = GeoJSON (slice_to events limit)"
    by (auto simp: features_4app_def split: sum.splits)
  show "\<forall>f\<in>set (features g). \<forall>s. event_type = Some s \<longrightarrow> event_type_of f = Inr (JStr s)"
    using select_events_sound [OF s] set_slice_to [of events limit] g by auto
  show "\<And>k. limit = Some k \<Longrightarrow> 0 \<le> k \<Longrightarrow> int (length (features g)) \<le> k"
    using g slice_to_bound by auto
qed

lemma sample_4app_TC_2:
  "latest_events_4app (respond 200 (Some sample_body)) (Some ''TC'') (Some 2)
     = (Inr (GeoJSON [tc_event, tc_event]), [request_4app])"
  by (simp add: latest_events_4app_def features_4app_def response_json_def respond_def
      sample_body_def EVENT_TYPES_def tc_event_def eq_event_def event_type_of_def slice_to_def)

text \<open>
  C5, as amended. For a limit \<open>k \<ge> 0\<close>, whenever \<^verbatim>\<open>latest_events_4app(limit=k)\<close> returns,
  the collection has at most \<open>k\<close> features, every feature has the event type that was
  asked for (when one was), and the single request issued carries no query parameter:
  filter and limit are applied by the client. The call does return on a 200 response
  whose \<^verbatim>\<open>features\<close> all carry an event type: the result is the filtered list, cut by
  the slice.
\<close>

theorem latest_events_4app_limit_and_filter:
  "(0 \<le> k \<and> latest_events_4app http event_type (Some k) = (Inr g, reqs) \<longrightarrow>
      int (length (features g)) \<le> k
    \<and> (\<forall>f\<in>set (features g). \<forall>s. event_type = Some s \<longrightarrow> event_type_of f = Inr (JStr s))
    \<and> reqs = [\<lparr>url = LATEST_EVENTS_URL_4APP, params = []\<rparr>])
   \<and> (event_type \<in> set EVENT_TYPES
      \<and> http request_4app = Inr \<lparr>status_code = 200, body = Some (JObj kvs)\<rparr>
      \<and> map_of kvs ''features'' = Some (JArr fs)
      \<and> (\<forall>f\<in>set fs. \<exists>t. event_type_of f = Inr t) \<longrightarrow>
      fst (latest_events_4app http event_type limit)
        = Inr (GeoJSON (slice_to
             (filter (\<lambda>f. case event_type of None \<Rightarrow> True
                           | Some s \<Rightarrow> event_type_of f = Inr (JStr s)) fs) limit)))"
proof (intro conjI impI)
  assume a: "0 \<le> k \<and> latest_events_4app http event_type (Some k) = (Inr g, reqs)"
  then obtain res where r: "features_4app res event_type (Some k) = Inr g"
    and q: "reqs = [request_4app]"
    by (auto simp: latest_events_4app_def split: if_splits sum.splits)
  from features_4app_sound(2) [OF r] a show "int (length (features g)) \<le> k" by simp
  from features_4app_sound(1) [OF r]
  show "\<forall>f\<in>set (features g). \<forall>s. event_type = Some s \<longrightarrow> event_type_of f = Inr (JStr s)" .
  from q show "reqs = [\<lparr>url = LATEST_EVENTS_URL_4APP, params = []\<rparr>]"
    by (simp add: request_4app_def)
next
  assume a: "event_type \<in> set EVENT_TYPES
      \<and> http request_4app = Inr \<lparr>status_code = 200, body = Some (JObj kvs)\<rparr>
      \<and> map_of kvs ''features'' = Some (JArr fs)
      \<and> (\<forall>f\<in>set fs. \<exists>t. event_type_of f = Inr t)"
  then have "select_events event_type fs
       = Inr (filter (\<lambda>f. case event_type of None \<Rightarrow> True | Some s \<Rightarrow> event_type_of f = Inr (JStr s)) fs)"
    by (intro select_events_returns) simp
  with a show "fst (latest_events_4app http event_type limit)
        = Inr (GeoJSON (slice_to
             (filter (\<lambda>f. case event_type of None \<Rightarrow> True
                           | Some s \<Rightarrow> event_type_of f = Inr (JStr s)) fs) limit))"
    by (simp add: latest_events_4app_def features_4app_def response_json_def)
qed

text \<open>
  C5, witness: three features, two of them tropical cyclones.
\<close>

theorem latest_events_4app_limit_and_filter_witness:
  "latest_events_4app (respond 200 (Some sample_body)) (Some ''TC'') (Some 2)
     = (Inr (GeoJSON [tc_event, tc_event]), [request_4app])
   \<and> int (length (features (GeoJSON [tc_event, tc_event]))) \<le> 2
   \<and> event_type_of tc_event = Inr (JStr ''TC'')
   \<and> fst (latest_events_4app (respond 200 (Some sample_body)) (Some ''EQ'') (Some 5))
       = Inr (GeoJSON [eq_event])"
  using latest_events_4app_limit_and_filter
      [of 2 "respond 200 (Some sample_body)" "Some ''TC''" "GeoJSON [tc_event, tc_event]"
          "[request_4app]" "[(''features'', JArr [tc_event, eq_event, tc_event])]"
          "[tc_event, eq_event, tc_event]" "Some 2"]
    latest_events_4app_limit_and_filter
      [of 2 "respond 200 (Some sample_body)" "Some ''EQ''" "GeoJSON [tc_event, tc_event]"
          "[request_4app]" "[(''features'', JArr [tc_event, eq_event, tc_event])]"
          "[tc_event, eq_event, tc_event]" "Some 5"]
    sample_4app_TC_2
  by (simp add: respond_def sample_body_def EVENT_TYPES_def tc_event_def eq_event_def
      event_type_of_def slice_to_def)

text \<open>
  C5, counterexample to the claim as stated: with \<open>k = -1\<close> the slice drops the last of
  three features and two are returned, more than \<open>k\<close>.
\<close>

theorem negative_limit_counterexample:
  "latest_events_4app (respond 200 (Some sample_body)) None (Some (- 1))
     = (Inr (GeoJSON [tc_event, eq_event]), [request_4app])
   \<and> \<not> int (length (features (GeoJSON [tc_event, eq_event]))) \<le> - 1"
  by (simp add: latest_events_4app_def features_4app_def response_json_def respond_def
      sample_body_def EVENT_TYPES_def tc_event_def eq_event_def event_type_of_def slice_to_def)

subsection \<open>Query parameters of \<^verbatim>\<open>latest_events\<close>\<close>

lemma event_types_of_EQ: "event_types_of ''EQ'' = [''EQ'']"
  by (simp add: event_types_of_def strip_def py_isspace_def)

text \<open>
  C6, as amended. Each of the seven query parameters is in the \<^verbatim>\<open>params\<close> of the request
  with its value when the argument is not \<^verbatim>\<open>None\<close>, and is absent from them when it is
  \<^verbatim>\<open>None\<close>; the request with exactly these parameters is the one \<^verbatim>\<open>latest_events\<close>
  issues when validation has passed. Five arguments default to \<^verbatim>\<open>None\<close>, but
  \<^verbatim>\<open>page_size\<close> and \<^verbatim>\<open>page_number\<close> default to 100 and 1: a call that passes no
  argument at all sends \<^verbatim>\<open>pagesize=100\<close> and \<^verbatim>\<open>pagenumber=1\<close>, and nothing else.
\<close>

theorem unset_parameters_omitted:
  "map_of (latest_events_params event_list alert_level date_modified country severity
             page_size page_number) ''eventlist'' = map_option VStr event_list
   \<and> map_of (latest_events_params event_list alert_level date_modified country severity
             page_size page_number) ''alertlevel'' = map_option VStr alert_level
   \<and> map_of (latest_events_params event_list alert_level date_modified country severity
             page_size page_number) ''datemodified'' = map_option VStr date_modified
   \<and> map_of (latest_events_params event_list alert_level date_modified country severity
             page_size page_number) ''country'' = map_option VStr country
   \<and> map_of (latest_events_params event_list alert_level date_modified country severity
             page_size page_number) ''severity'' = map_option VInt severity
   \<and> map_of (latest_events_params event_list alert_level date_modified country severity
             page_size page_number) ''pagesize'' = map_option VInt page_size
   \<and> map_of (latest_events_params event_list alert_level date_modified country severity
             page_size page_number) ''pagenumber'' = map_option VInt page_number
   \<and> (latest_events_validate event_list alert_level = None \<longrightarrow>
        snd (latest_events http event_list alert_level date_modified country severity
               page_size page_number)
        = [\<lparr>url = LATEST_EVENTS_URL,
            params = latest_events_params event_list alert_level date_modified country
                       severity page_size page_number\<rparr>])
   \<and> snd (latest_events_no_args http)
       = [\<lparr>url = LATEST_EVENTS_URL,
           params = [(''pagesize'', VInt 100), (''pagenumber'', VInt 1)]\<rparr>]"
proof -
  have "snd (latest_events_no_args http)
       = [\<lparr>url = LATEST_EVENTS_URL,
           params = [(''pagesize'', VInt 100), (''pagenumber'', VInt 1)]\<rparr>]"
    by (simp add: latest_events_no_args_def latest_events_def latest_events_validate_def
        event_list_error_def alert_level_error_def latest_events_params_def Let_def)
  then show ?thesis
    by (cases event_list; cases alert_level; cases date_modified; cases country; cases severity;
        cases page_size; cases page_number)
      (simp_all add: latest_events_params_def latest_events_def Let_def)
qed

text \<open>
  C6, witness: three parameters set and four passed as \<^verbatim>\<open>None\<close>; and the call without
  arguments.
\<close>

theorem unset_parameters_omitted_witness:
  "latest_events_validate (Some ''EQ'') (Some ''red'') = None
   \<and> snd (latest_events (respond 204 None) (Some ''EQ'') (Some ''red'') None None None (Some 5)
            None)
     = [\<lparr>url = LATEST_EVENTS_URL,
         params = [(''eventlist'', VStr ''EQ''), (''alertlevel'', VStr ''red''),
                   (''pagesize'', VInt 5)]\<rparr>]
   \<and> snd (latest_events_no_args (respond 204 None))
       = [\<lparr>url = LATEST_EVENTS_URL,
           params = [(''pagesize'', VInt 100), (''pagenumber'', VInt 1)]\<rparr>]"
  using unset_parameters_omitted
    [of "Some ''EQ''" "Some ''red''" None None None "Some 5" None "respond 204 None"]
  by (simp add: latest_events_validate_def event_list_error_def alert_level_error_def
      event_types_of_EQ EVENT_TYPES_def ALERT_LEVELS_def latest_events_params_def)

text \<open>
  C6, counterexample to the claim as stated: \<^verbatim>\<open>latest_events()\<close>, with \<^verbatim>\<open>page_size\<close> and
  \<^verbatim>\<open>page_number\<close> left unset, issues a request that carries both.
\<close>

theorem default_page_parameters_counterexample:
  "latest_events_no_args (respond 200 (Some sample_body))
     = latest_events (respond 200 (Some sample_body)) None None None None None (Some 100) (Some 1)
   \<and> snd (latest_events_no_args (respond 200 (Some sample_body)))
     = [\<lparr>url = LATEST_EVENTS_URL,
         params = [(''pagesize'', VInt 100), (''pagenumber'', VInt 1)]\<rparr>]"
  by (simp add: latest_events_no_args_def latest_events_def latest_events_validate_def
      event_list_error_def alert_level_error_def latest_events_params_def Let_def)

section \<open>Properties of the cache\<close>

subsection \<open>Lookups, stores and the order of use\<close>




lemma distinct_filter_fst: "distinct (map fst c) \<Longrightarrow> distinct (map fst (filter P c))"
  by (induction c) auto

lemma distinct_move_to_end: "distinct (map fst c) \<Longrightarrow> distinct (map fst (move_to_end k c))"
  by (auto simp: move_to_end_def distinct_filter_fst)

lemma distinct_drop_fst: "distinct (map fst c) \<Longrightarrow> distinct (map fst (drop d c))"
  by (simp add: drop_map [symmetric] del: drop_map)

lemma distinct_setitem:
  "distinct (map fst c) \<Longrightarrow> distinct (map fst (cache_setitem m ttl now c k v))"
  by (auto simp: cache_setitem_def Let_def expire_def distinct_filter_fst distinct_drop_fst)

lemma distinct_cached:
  "distinct (map fst c) \<Longrightarrow> distinct (map fst (snd (cached m ttl f tg ts c k)))"
  by (auto simp: cached_def cache_getitem_def distinct_move_to_end distinct_setitem
      split: option.splits sum.splits prod.splits if_splits)

















subsection \<open>The public operations\<close>










end
